theory Spec2Isabelle
  imports Complex_Main
begin

section \<open>Python values\<close>

text \<open>
  The kiosk's main.py computes with Python floats (frame rates, seconds, volumes, the
  blend factor) and unbounded Python ints (frame counters, tag ids). Ints are \<open>int\<close>.
  Floats are modelled by the exact rationals \<open>rat\<close>: every float is a rational, and the
  properties below rest on comparisons and on the monotonicity of \<open>+\<close>, \<open>-\<close>, \<open>*\<close>, \<open>/\<close>,
  which correctly rounded float arithmetic keeps. NaN and the infinities are left out.
\<close>

datatype py_error = ZeroDivisionError

text \<open>Python's \<^verbatim>\<open>int(x)\<close> on a float truncates toward zero.\<close>

definition py_int :: "rat \<Rightarrow> int" where
  "py_int x = (if 0 \<le> x then \<lfloor>x\<rfloor> else \<lceil>x\<rceil>)"

section \<open>The soundtrack: channel, globals and fade state\<close>

text \<open>\<^verbatim>\<open>audio_fade_state\<close> is one of the strings "NONE", "FADE_IN", "PLAYING", "FADE_OUT".\<close>

datatype fade_state = NONE | FADE_IN | PLAYING | FADE_OUT

text \<open>
  A pygame channel: whether it is busy, its volume, and the sequence of
  \<^verbatim>\<open>set_volume\<close> calls made on it, each with the value \<^verbatim>\<open>audio_fade_state\<close> had when
  the call was made.
\<close>

record channel =
  chan_busy :: bool
  chan_volume :: rat
  chan_writes :: "(fade_state \<times> rat) list"

text \<open>The audio globals of main.py; \<open>soundtrack\<close> is True when a Sound object was loaded.\<close>

record audio =
  pygame_mixer_initialized :: bool
  soundtrack :: bool
  soundtrack_channel :: "channel option"
  current_video_duration_sec :: rat
  audio_fade_state :: fade_state

definition TARGET_SOUNDTRACK_VOLUME :: rat where
  "TARGET_SOUNDTRACK_VOLUME = 7 / 10"

definition get_busy :: "audio \<Rightarrow> bool" where
  "get_busy a = (case soundtrack_channel a of None \<Rightarrow> False | Some c \<Rightarrow> chan_busy c)"

definition get_volume :: "audio \<Rightarrow> rat" where
  "get_volume a = (case soundtrack_channel a of None \<Rightarrow> 0 | Some c \<Rightarrow> chan_volume c)"

definition channel_stop :: "audio \<Rightarrow> audio" where
  "channel_stop a =
     (case soundtrack_channel a of
        None \<Rightarrow> a
      | Some c \<Rightarrow> a\<lparr>soundtrack_channel := Some (c\<lparr>chan_busy := False\<rparr>)\<rparr>)"

definition set_volume :: "rat \<Rightarrow> audio \<Rightarrow> audio" where
  "set_volume v a =
     (case soundtrack_channel a of
        None \<Rightarrow> a
      | Some c \<Rightarrow>
          a\<lparr>soundtrack_channel :=
               Some (c\<lparr>chan_volume := v,
                       chan_writes := chan_writes c @ [(audio_fade_state a, v)]\<rparr>)\<rparr>)"

text \<open>The writes made on the current channel so far.\<close>

definition writes :: "audio \<Rightarrow> (fade_state \<times> rat) list" where
  "writes a = (case soundtrack_channel a of None \<Rightarrow> [] | Some c \<Rightarrow> chan_writes c)"

text \<open>
  \<^verbatim>\<open>start_soundtrack_for_video(video_total_frames, video_fps)\<close>; \<open>play_ok\<close> tells whether
  \<^verbatim>\<open>soundtrack.play(loops=0)\<close> returned a channel.
\<close>

definition start_soundtrack_for_video :: "bool \<Rightarrow> int \<Rightarrow> rat \<Rightarrow> audio \<Rightarrow> audio" where
  "start_soundtrack_for_video play_ok video_total_frames video_fps a =
     (if \<not> (pygame_mixer_initialized a \<and> soundtrack a) then a\<lparr>audio_fade_state := NONE\<rparr>
      else
        let a1 = (if get_busy a then channel_stop a else a);
            a2 = a1\<lparr>current_video_duration_sec :=
                      (if video_fps > 0 then of_int video_total_frames / video_fps else 0)\<rparr>
        in if play_ok
           then (set_volume 0
                   (a2\<lparr>soundtrack_channel :=
                         Some \<lparr>chan_busy = True, chan_volume = 1, chan_writes = []\<rparr>\<rparr>))
                \<lparr>audio_fade_state := FADE_IN\<rparr>
           else a2\<lparr>soundtrack_channel := None, audio_fade_state := NONE\<rparr>)"

text \<open>The three consecutive \<^verbatim>\<open>if\<close> blocks of \<^verbatim>\<open>manage_soundtrack_volume\<close>.\<close>

definition fade_in_block :: "rat \<Rightarrow> rat \<Rightarrow> audio \<Rightarrow> py_error + audio" where
  "fade_in_block video_current_time_sec fade_duration_config_sec a =
     (if audio_fade_state a = FADE_IN then
        if video_current_time_sec < fade_duration_config_sec then
          if fade_duration_config_sec = 0 then Inl ZeroDivisionError
          else
            let volume = (video_current_time_sec / fade_duration_config_sec)
                           * TARGET_SOUNDTRACK_VOLUME
            in Inr (set_volume (min volume TARGET_SOUNDTRACK_VOLUME) a)
        else Inr ((set_volume TARGET_SOUNDTRACK_VOLUME a)\<lparr>audio_fade_state := PLAYING\<rparr>)
      else Inr a)"

definition fade_out_start :: "rat \<Rightarrow> rat \<Rightarrow> audio \<Rightarrow> audio" where
  "fade_out_start video_current_time_sec fade_duration_config_sec a =
     (let fade_out_start_time_video = current_video_duration_sec a - fade_duration_config_sec
      in if audio_fade_state a = PLAYING
            \<and> video_current_time_sec \<ge> fade_out_start_time_video
            \<and> current_video_duration_sec a > 0
         then a\<lparr>audio_fade_state := FADE_OUT\<rparr>
         else a)"

definition fade_out_block :: "rat \<Rightarrow> rat \<Rightarrow> audio \<Rightarrow> audio" where
  "fade_out_block video_current_time_sec fade_duration_config_sec a =
     (let fade_out_start_time_video = current_video_duration_sec a - fade_duration_config_sec
      in if audio_fade_state a = FADE_OUT then
           let time_into_fade_out_period = video_current_time_sec - fade_out_start_time_video
           in if time_into_fade_out_period < 0 then
                (if get_volume a < TARGET_SOUNDTRACK_VOLUME
                 then set_volume TARGET_SOUNDTRACK_VOLUME a else a)
              else if time_into_fade_out_period < fade_duration_config_sec then
                let fadeOutProgress = time_into_fade_out_period / fade_duration_config_sec;
                    volume = TARGET_SOUNDTRACK_VOLUME * (1 - fadeOutProgress)
                in set_volume (max 0 volume) a
              else set_volume 0 a
         else a)"

definition manage_soundtrack_volume :: "rat \<Rightarrow> rat \<Rightarrow> audio \<Rightarrow> py_error + audio" where
  "manage_soundtrack_volume video_current_time_sec fade_duration_config_sec a =
     (if \<not> (pygame_mixer_initialized a \<and> soundtrack_channel a \<noteq> None \<and> get_busy a)
      then Inr (a\<lparr>audio_fade_state := NONE\<rparr>)
      else
        case fade_in_block video_current_time_sec fade_duration_config_sec a of
          Inl e \<Rightarrow> Inl e
        | Inr a1 \<Rightarrow>
            Inr (fade_out_block video_current_time_sec fade_duration_config_sec
                   (fade_out_start video_current_time_sec fade_duration_config_sec a1)))"

definition stop_soundtrack_immediately :: "audio \<Rightarrow> audio" where
  "stop_soundtrack_immediately a =
     (if pygame_mixer_initialized a \<and> soundtrack_channel a \<noteq> None \<and> get_busy a
      then channel_stop a else a)\<lparr>audio_fade_state := NONE\<rparr>"

text \<open>
  A run of update calls. Between two calls the sound may come to its end (it is played
  once, \<^verbatim>\<open>loops=0\<close>): each call comes with a flag telling whether it has, and with the
  video time passed to it.
\<close>

definition sound_ended :: "bool \<Rightarrow> audio \<Rightarrow> audio" where
  "sound_ended fin a = (if fin then channel_stop a else a)"

fun manage_calls :: "rat \<Rightarrow> (bool \<times> rat) list \<Rightarrow> audio \<Rightarrow> py_error + audio" where
  "manage_calls fade [] a = Inr a"
| "manage_calls fade ((fin, t) # cs) a =
     (case manage_soundtrack_volume t fade (sound_ended fin a) of
        Inl e \<Rightarrow> Inl e
      | Inr a' \<Rightarrow> manage_calls fade cs a')"

section \<open>The main loop\<close>

text \<open>The tuples the reader thread puts on \<^verbatim>\<open>rfid_event_queue\<close>.\<close>

datatype tag_event = TAG_INSERTED int | TAG_INVALID int

text \<open>
  What \<^verbatim>\<open>main\<close> fixes before its loop: the idle video's path, the validated tag-video
  dict (in insertion order), the fade duration of the configuration and whether the
  reader thread is alive.
\<close>

record config =
  idle_video_full_path :: string
  valid_tag_video_map :: "(int \<times> string) list"
  FADE_DURATION_SECONDS :: rat
  rfid_active :: bool

text \<open>
  The variables of the loop. \<open>cap\<close> is \<open>None\<close> for Python's None and \<open>Some b\<close> for a
  capture object whose \<^verbatim>\<open>isOpened()\<close> is \<open>b\<close>; \<open>black_frame\<close> keeps the array's
  (height, width).
\<close>

record kiosk =
  cap :: "bool option"
  active_tag_id :: "int option"
  current_video_path_playing :: string
  target_video_path :: string
  target_is_idle :: bool
  fps :: rat
  frame_width :: int
  frame_height :: int
  black_frame :: "int \<times> int"
  fade_in_frames :: int
  current_playback_frame_count :: int
  previous_video_was_content :: bool
  running :: bool
  sound :: audio
  rfid_event_queue :: "tag_event list"

text \<open>
  What the outside world does during one iteration: the events the reader thread has put
  on the queue since the last poll, whether the sound has played to its end, whether the
  capture opens, the properties it reports, whether the sound starts, the frame read
  (its height and width; \<open>None\<close> when \<^verbatim>\<open>ret\<close> is False) and the key code.
\<close>

record world =
  tags_put :: "tag_event list"
  sound_finished :: bool
  open_ok :: bool
  prop_fps :: rat
  prop_frame_width :: rat
  prop_frame_height :: rat
  prop_frame_count :: rat
  play_ok :: bool
  read_frame :: "(int \<times> int) option"
  key :: int

definition cap_opened :: "kiosk \<Rightarrow> bool" where
  "cap_opened k = (cap k = Some True)"

definition cap_release :: "kiosk \<Rightarrow> kiosk" where
  "cap_release k = (case cap k of None \<Rightarrow> k | Some b \<Rightarrow> k\<lparr>cap := Some False\<rparr>)"

text \<open>\<^verbatim>\<open>get_video_properties\<close>: (fps, width, height, total_frames).\<close>

definition get_video_properties :: "bool \<Rightarrow> world \<Rightarrow> rat \<times> int \<times> int \<times> int" where
  "get_video_properties opened w =
     (if \<not> opened then (0, 0, 0, 0)
      else
        let f = prop_fps w;
            f = (if f = 0 then 25 else f)
        in (f, py_int (prop_frame_width w), py_int (prop_frame_height w),
            py_int (prop_frame_count w)))"

text \<open>The state before the first iteration, given the audio globals after start-up.\<close>

definition initial :: "config \<Rightarrow> audio \<Rightarrow> kiosk" where
  "initial cfg a =
     \<lparr>cap = None, active_tag_id = None, current_video_path_playing = [],
      target_video_path = idle_video_full_path cfg, target_is_idle = True,
      fps = 30, frame_width = 1920, frame_height = 1080, black_frame = (1080, 1920),
      fade_in_frames = py_int (FADE_DURATION_SECONDS cfg * 30),
      current_playback_frame_count = 0, previous_video_was_content = False,
      running = True, sound = a, rfid_event_queue = []\<rparr>"

subsection \<open>1. Process RFID events\<close>

definition dict_in :: "int \<Rightarrow> (int \<times> string) list \<Rightarrow> bool" where
  "dict_in t m = (map_of m t \<noteq> None)"

definition dict_get :: "(int \<times> string) list \<Rightarrow> int \<Rightarrow> string" where
  "dict_get m t = (case map_of m t of None \<Rightarrow> [] | Some p \<Rightarrow> p)"

definition process_rfid_events :: "config \<Rightarrow> kiosk \<Rightarrow> kiosk" where
  "process_rfid_events cfg k =
     (if rfid_active cfg then
        case rfid_event_queue k of
          [] \<Rightarrow> k
        | TAG_INSERTED new_tag_id_int # rest \<Rightarrow>
            let k1 = k\<lparr>rfid_event_queue := rest\<rparr>
            in if Some new_tag_id_int \<noteq> active_tag_id k1 then
                 if dict_in new_tag_id_int (valid_tag_video_map cfg) then
                   k1\<lparr>target_video_path := dict_get (valid_tag_video_map cfg) new_tag_id_int,
                      target_is_idle := False\<rparr>
                 else k1
               else k1
        | TAG_INVALID event_data_int # rest \<Rightarrow> k\<lparr>rfid_event_queue := rest\<rparr>
      else k)"

subsection \<open>2. Manage video transitions and loading\<close>

definition needs_load :: "kiosk \<Rightarrow> bool" where
  "needs_load k =
     (current_video_path_playing k \<noteq> target_video_path k \<or> cap k = None \<or> \<not> cap_opened k)"

definition effective_fps_for_fade :: "rat \<Rightarrow> rat \<Rightarrow> rat" where
  "effective_fps_for_fade new_fps old_fps = (if new_fps > 0 then new_fps else old_fps)"

definition find_tag_id :: "(int \<times> string) list \<Rightarrow> string \<Rightarrow> int option" where
  "find_tag_id m path = map_option fst (find (\<lambda>(int_id, path_val). path_val = path) m)"

text \<open>The branch taken when \<^verbatim>\<open>cap.isOpened()\<close> is False after opening; it ends in \<^verbatim>\<open>continue\<close>.\<close>

definition load_failed :: "config \<Rightarrow> kiosk \<Rightarrow> kiosk" where
  "load_failed cfg k =
     k\<lparr>previous_video_was_content :=
         (current_video_path_playing k \<noteq> idle_video_full_path cfg
          \<and> current_video_path_playing k \<noteq> []),
       target_video_path := idle_video_full_path cfg,
       target_is_idle := True,
       active_tag_id := None,
       current_video_path_playing := []\<rparr>"

text \<open>
  The rest of the block, after the capture has opened, in its three parts: the fade
  budget and the fade decision (lines 446-462), the path and tag now playing (lines
  464-477), and the video properties with the soundtrack (lines 479-494). The last part
  reads \<^verbatim>\<open>is_loading_idle_video\<close> of line 449 off the target path again, which nothing
  in between assigns.
\<close>

definition load_fade_decision :: "config \<Rightarrow> rat \<Rightarrow> kiosk \<Rightarrow> kiosk" where
  "load_fade_decision cfg new_fps k =
     (let k1 = k\<lparr>fade_in_frames :=
                  py_int (FADE_DURATION_SECONDS cfg * effective_fps_for_fade new_fps (fps k))\<rparr>;
          is_loading_idle_video = (target_video_path k1 = idle_video_full_path cfg)
      in if is_loading_idle_video then
           (if previous_video_was_content k1
            then k1\<lparr>current_playback_frame_count := 0\<rparr>
            else k1\<lparr>current_playback_frame_count := fade_in_frames k1 + 1\<rparr>)
           \<lparr>previous_video_was_content := False\<rparr>
         else k1\<lparr>current_playback_frame_count := 0, previous_video_was_content := True\<rparr>)"

definition load_now_playing :: "config \<Rightarrow> kiosk \<Rightarrow> kiosk" where
  "load_now_playing cfg k =
     (let k1 = k\<lparr>current_video_path_playing := target_video_path k\<rparr>
      in if target_is_idle k1 then
           k1\<lparr>active_tag_id := None, sound := stop_soundtrack_immediately (sound k1)\<rparr>
         else
           k1\<lparr>active_tag_id :=
                find_tag_id (valid_tag_video_map cfg) (target_video_path k1)\<rparr>)"

definition load_properties ::
  "config \<Rightarrow> bool \<Rightarrow> rat \<times> int \<times> int \<times> int \<Rightarrow> kiosk \<Rightarrow> kiosk" where
  "load_properties cfg play props k =
     (case props of
        (new_fps, new_width, new_height, new_total_frames) \<Rightarrow>
          if new_fps > 0 \<and> new_width > 0 \<and> new_height > 0 then
            let k1 = (if fps k \<noteq> new_fps \<or> frame_width k \<noteq> new_width
                         \<or> frame_height k \<noteq> new_height
                      then k\<lparr>fps := new_fps, frame_width := new_width,
                             frame_height := new_height,
                             black_frame := (new_height, new_width)\<rparr>
                      else k)
            in if \<not> target_is_idle k1
               then k1\<lparr>sound := start_soundtrack_for_video play new_total_frames new_fps
                                   (sound k1)\<rparr>
               else k1
          else
            let k1 = k\<lparr>sound := stop_soundtrack_immediately (sound k)\<rparr>
            in if target_video_path k1 \<noteq> idle_video_full_path cfg
               then k1\<lparr>previous_video_was_content := True\<rparr> else k1)"

definition load_succeeded :: "config \<Rightarrow> world \<Rightarrow> kiosk \<Rightarrow> kiosk" where
  "load_succeeded cfg w k =
     (let props = get_video_properties (cap_opened k) w
      in load_properties cfg (play_ok w) props
           (load_now_playing cfg (load_fade_decision cfg (fst props) k)))"

text \<open>The whole block; the flag tells whether the iteration ends here (\<^verbatim>\<open>continue\<close>).\<close>

definition manage_video_transitions :: "config \<Rightarrow> world \<Rightarrow> kiosk \<Rightarrow> bool \<times> kiosk" where
  "manage_video_transitions cfg w k =
     (if needs_load k then
        let k1 = (cap_release k)\<lparr>cap := Some (open_ok w)\<rparr>
        in if \<not> cap_opened k1 then (True, load_failed cfg k1)
           else (False, load_succeeded cfg w k1)
      else (False, k))"

subsection \<open>3. Read and display a frame, 4. input and delay\<close>

text \<open>
  The blend factor of the frame shown: the division of lines 528-529 while the counter
  is within the budget, and 1 (the frame unmodified) past it.
\<close>

definition fade_alpha :: "int \<Rightarrow> int \<Rightarrow> py_error + rat" where
  "fade_alpha frame_count budget =
     (if frame_count \<le> budget then
        if budget = 0 then Inl ZeroDivisionError
        else Inr (min (of_int frame_count / of_int budget) 1)
      else Inr 1)"

text \<open>The branch taken when \<^verbatim>\<open>ret\<close> is False (lines 500-517); it ends in \<^verbatim>\<open>continue\<close>.\<close>

definition video_ended :: "config \<Rightarrow> kiosk \<Rightarrow> kiosk" where
  "video_ended cfg k =
     (let k1 = (cap_release k)\<lparr>sound := stop_soundtrack_immediately (sound k)\<rparr>;
          k2 = k1\<lparr>previous_video_was_content := (active_tag_id k1 \<noteq> None)\<rparr>
      in k2\<lparr>target_video_path := idle_video_full_path cfg,
            target_is_idle := True,
            active_tag_id := None\<rparr>)"

text \<open>The counter and the soundtrack volume of the frame just read (lines 519-523).\<close>

definition advance_frame :: "config \<Rightarrow> kiosk \<Rightarrow> py_error + kiosk" where
  "advance_frame cfg k =
     (let k1 = k\<lparr>current_playback_frame_count := current_playback_frame_count k + 1\<rparr>
      in if \<not> target_is_idle k1 \<and> fps k1 > 0 then
           case manage_soundtrack_volume
                  (of_int (current_playback_frame_count k1) / fps k1)
                  (FADE_DURATION_SECONDS cfg) (sound k1) of
             Inl e \<Rightarrow> Inl e
           | Inr a \<Rightarrow> Inr (k1\<lparr>sound := a\<rparr>)
         else Inr k1)"

text \<open>
  The blend, the display and the delay (lines 525-541): the new state and the blend
  factor of the frame shown.
\<close>

definition show_frame :: "world \<Rightarrow> int \<times> int \<Rightarrow> kiosk \<Rightarrow> py_error + (kiosk \<times> rat option)" where
  "show_frame w frame k =
     (case fade_alpha (current_playback_frame_count k) (fade_in_frames k) of
        Inl e \<Rightarrow> Inl e
      | Inr alpha \<Rightarrow>
          let k1 = (if current_playback_frame_count k \<le> fade_in_frames k
                       \<and> black_frame k \<noteq> frame
                    then k\<lparr>black_frame := frame\<rparr> else k)
          in if fps k1 = 0 then Inl ZeroDivisionError
             else if key w = 113 \<or> key w = 27
             then Inr (k1\<lparr>running := False\<rparr>, Some alpha)
             else Inr (k1, Some alpha))"

text \<open>
  The third and fourth blocks: the new state and the blend factor of the frame shown,
  if one was shown.
\<close>

definition read_and_display :: "config \<Rightarrow> world \<Rightarrow> kiosk \<Rightarrow> py_error + (kiosk \<times> rat option)" where
  "read_and_display cfg w k =
     (if cap k \<noteq> None \<and> cap_opened k then
        case read_frame w of
          None \<Rightarrow> Inr (video_ended cfg k, None)
        | Some frame \<Rightarrow>
            (case advance_frame cfg k of
               Inl e \<Rightarrow> Inl e
             | Inr k1 \<Rightarrow> show_frame w frame k1)
      else Inr (k, None))"

subsection \<open>One iteration of the loop\<close>

definition arrivals :: "world \<Rightarrow> kiosk \<Rightarrow> kiosk" where
  "arrivals w k =
     k\<lparr>rfid_event_queue := rfid_event_queue k @ tags_put w,
       sound := sound_ended (sound_finished w) (sound k)\<rparr>"

definition iteration :: "config \<Rightarrow> world \<Rightarrow> kiosk \<Rightarrow> py_error + (kiosk \<times> rat option)" where
  "iteration cfg w k =
     (case manage_video_transitions cfg w (process_rfid_events cfg (arrivals w k)) of
        (continue, k') \<Rightarrow> if continue then Inr (k', None) else read_and_display cfg w k')"

text \<open>The states the loop can be in at the top of an iteration.\<close>

inductive reachable :: "config \<Rightarrow> audio \<Rightarrow> kiosk \<Rightarrow> bool" for cfg :: config and a0 :: audio where
  start: "reachable cfg a0 (initial cfg a0)"
| step: "reachable cfg a0 k \<Longrightarrow> running k \<Longrightarrow> iteration cfg w k = Inr (k', shown)
         \<Longrightarrow> reachable cfg a0 k'"

section \<open>Auxiliary definitions\<close>

text \<open>
  What a state must satisfy for the divisions of an iteration to be defined: a positive
  frame rate, a frame counter that is non-negative or already past the fade budget, and
  a fade budget that is non-negative unless the configured fade duration is negative.
\<close>

definition safe :: "config \<Rightarrow> kiosk \<Rightarrow> bool" where
  "safe cfg k =
     (fps k > 0
      \<and> (0 \<le> current_playback_frame_count k \<or> fade_in_frames k < current_playback_frame_count k)
      \<and> (FADE_DURATION_SECONDS cfg < 0 \<or> 0 \<le> fade_in_frames k))"

text \<open>
  The value the FADE_IN block of \<^verbatim>\<open>manage_soundtrack_volume\<close> passes to \<^verbatim>\<open>set_volume\<close> at
  video time \<open>t\<close>, and the value the FADE_OUT block passes (when it writes at all).
\<close>

definition fade_in_volume :: "rat \<Rightarrow> rat \<Rightarrow> rat" where
  "fade_in_volume fade t =
     (if t < fade then min ((t / fade) * TARGET_SOUNDTRACK_VOLUME) TARGET_SOUNDTRACK_VOLUME
      else TARGET_SOUNDTRACK_VOLUME)"

definition fade_out_volume :: "rat \<Rightarrow> rat \<Rightarrow> rat \<Rightarrow> rat" where
  "fade_out_volume fade dur t =
     (if t - (dur - fade) < 0 then TARGET_SOUNDTRACK_VOLUME
      else if t - (dur - fade) < fade
      then max 0 (TARGET_SOUNDTRACK_VOLUME * (1 - (t - (dur - fade)) / fade))
      else 0)"

text \<open>
  Whether there is a channel object, and the volumes among a list of writes that were
  written while the state variable was FADE_IN, or FADE_OUT.
\<close>

definition has_channel :: "audio \<Rightarrow> bool" where
  "has_channel a = (soundtrack_channel a \<noteq> None)"

definition fade_in_writes :: "(fade_state \<times> rat) list \<Rightarrow> rat list" where
  "fade_in_writes ws = map snd (filter (\<lambda>w. fst w = FADE_IN) ws)"

definition fade_out_writes :: "(fade_state \<times> rat) list \<Rightarrow> rat list" where
  "fade_out_writes ws = map snd (filter (\<lambda>w. fst w = FADE_OUT) ws)"


subsection \<open>A kiosk with two tags\<close>

text \<open>
  A configuration with tag 0x1A2 = 418 mapped to one video and tag 7 to another, a fade
  of 1.5 s, videos of 75 frames at 25 frames per second, and the worlds used below: one
  in which tags are put on the queue, one in which the video ends, one in which the
  capture does not open.
\<close>

definition example_config :: config where
  "example_config =
     \<lparr>idle_video_full_path = ''media/idle.mp4'',
      valid_tag_video_map = [(418, ''media/a.mp4''), (7, ''media/b.mp4'')],
      FADE_DURATION_SECONDS = 3 / 2, rfid_active = True\<rparr>"

definition example_audio :: audio where
  "example_audio =
     \<lparr>pygame_mixer_initialized = True, soundtrack = True, soundtrack_channel = None,
      current_video_duration_sec = 0, audio_fade_state = NONE\<rparr>"

definition example_world :: world where
  "example_world =
     \<lparr>tags_put = [], sound_finished = False, open_ok = True, prop_fps = 25,
      prop_frame_width = 640, prop_frame_height = 480, prop_frame_count = 75,
      play_ok = True, read_frame = Some (480, 640), key = 255\<rparr>"

definition tag_world :: "int list \<Rightarrow> world" where
  "tag_world ts = example_world\<lparr>tags_put := map TAG_INSERTED ts\<rparr>"

definition end_world :: world where
  "end_world = example_world\<lparr>read_frame := None\<rparr>"

definition broken_world :: world where
  "broken_world = example_world\<lparr>open_ok := False\<rparr>"

text \<open>
  The \<^verbatim>\<open>while running\<close> loop over a list of worlds; an exception ends it
  (\<^verbatim>\<open>except Exception\<close>), as does \<open>running = False\<close>.
\<close>

fun run_loop :: "config \<Rightarrow> world list \<Rightarrow> kiosk \<Rightarrow> py_error + kiosk" where
  "run_loop cfg [] k = Inr k"
| "run_loop cfg (w # ws) k =
     (if running k then
        case iteration cfg w k of
          Inl e \<Rightarrow> Inl e
        | Inr (k', shown) \<Rightarrow> run_loop cfg ws k'
      else Inr k)"

text \<open>
  The state of the example kiosk after the given iterations, and an audio state in
  FADE_IN whose channel has fallen silent.
\<close>

definition example_after :: "world list \<Rightarrow> kiosk" where
  "example_after ws =
     (case run_loop example_config ws (initial example_config example_audio) of
        Inl e \<Rightarrow> initial example_config example_audio
      | Inr k \<Rightarrow> k)"

definition silent_fade_in :: audio where
  "silent_fade_in =
     \<lparr>pygame_mixer_initialized = True, soundtrack = True,
      soundtrack_channel = Some \<lparr>chan_busy = False, chan_volume = 7 / 10, chan_writes = []\<rparr>,
      current_video_duration_sec = 3, audio_fade_state = FADE_IN\<rparr>"

text \<open>
  Update calls every half second of video time, the sound playing on.
\<close>

definition example_calls :: "(bool \<times> rat) list" where
  "example_calls = [(False, 1 / 2), (False, 1), (False, 3 / 2), (False, 2), (False, 5 / 2),
                    (False, 3)]"

section \<open>Properties of the blocks\<close>

subsection \<open>Fields the blocks leave alone\<close>

lemma stop_state [simp]: "audio_fade_state (stop_soundtrack_immediately a) = NONE"
  by (simp add: stop_soundtrack_immediately_def)

lemma stop_not_busy: "pygame_mixer_initialized a \<Longrightarrow> \<not> get_busy (stop_soundtrack_immediately a)"
  by (auto simp: stop_soundtrack_immediately_def get_busy_def channel_stop_def split: option.splits)

lemma release_fields [simp]:
  "fade_in_frames (cap_release k) = fade_in_frames k"
  "current_playback_frame_count (cap_release k) = current_playback_frame_count k"
  "previous_video_was_content (cap_release k) = previous_video_was_content k"
  "fps (cap_release k) = fps k"
  "target_video_path (cap_release k) = target_video_path k"
  "target_is_idle (cap_release k) = target_is_idle k"
  "rfid_event_queue (cap_release k) = rfid_event_queue k"
  "current_video_path_playing (cap_release k) = current_video_path_playing k"
  "active_tag_id (cap_release k) = active_tag_id k"
  "sound (cap_release k) = sound k"
  by (simp_all add: cap_release_def split: option.splits)

lemma decision_fields [simp]:
  "fade_in_frames (load_fade_decision cfg nf k) =
     py_int (FADE_DURATION_SECONDS cfg * effective_fps_for_fade nf (fps k))"
  "current_playback_frame_count (load_fade_decision cfg nf k) =
     (if target_video_path k = idle_video_full_path cfg \<and> \<not> previous_video_was_content k
      then py_int (FADE_DURATION_SECONDS cfg * effective_fps_for_fade nf (fps k)) + 1 else 0)"
  "previous_video_was_content (load_fade_decision cfg nf k) =
     (target_video_path k \<noteq> idle_video_full_path cfg)"
  "fps (load_fade_decision cfg nf k) = fps k"
  "target_video_path (load_fade_decision cfg nf k) = target_video_path k"
  "target_is_idle (load_fade_decision cfg nf k) = target_is_idle k"
  "rfid_event_queue (load_fade_decision cfg nf k) = rfid_event_queue k"
  "cap (load_fade_decision cfg nf k) = cap k"
  by (simp_all add: load_fade_decision_def Let_def)

lemma now_playing_fields [simp]:
  "fade_in_frames (load_now_playing cfg k) = fade_in_frames k"
  "current_playback_frame_count (load_now_playing cfg k) = current_playback_frame_count k"
  "previous_video_was_content (load_now_playing cfg k) = previous_video_was_content k"
  "fps (load_now_playing cfg k) = fps k"
  "target_video_path (load_now_playing cfg k) = target_video_path k"
  "target_is_idle (load_now_playing cfg k) = target_is_idle k"
  "rfid_event_queue (load_now_playing cfg k) = rfid_event_queue k"
  "cap (load_now_playing cfg k) = cap k"
  "current_video_path_playing (load_now_playing cfg k) = target_video_path k"
  by (simp_all add: load_now_playing_def Let_def)

lemma properties_fields [simp]:
  "fade_in_frames (load_properties cfg pl props k) = fade_in_frames k"
  "current_playback_frame_count (load_properties cfg pl props k) = current_playback_frame_count k"
  "target_video_path (load_properties cfg pl props k) = target_video_path k"
  "target_is_idle (load_properties cfg pl props k) = target_is_idle k"
  "rfid_event_queue (load_properties cfg pl props k) = rfid_event_queue k"
  "cap (load_properties cfg pl props k) = cap k"
  "current_video_path_playing (load_properties cfg pl props k) = current_video_path_playing k"
  by (simp_all add: load_properties_def Let_def split: prod.splits)

lemma properties_flag:
  "previous_video_was_content (load_properties cfg pl (nf, nw, nh, nt) k) =
     (previous_video_was_content k
      \<or> (\<not> (nf > 0 \<and> nw > 0 \<and> nh > 0) \<and> target_video_path k \<noteq> idle_video_full_path cfg))"
  by (simp add: load_properties_def Let_def)

lemma properties_fps:
  "fps (load_properties cfg pl (nf, nw, nh, nt) k) =
     (if nf > 0 \<and> nw > 0 \<and> nh > 0 then nf else fps k)"
  by (simp add: load_properties_def Let_def)

lemma transitions_loaded:
  "needs_load k \<Longrightarrow> open_ok w \<Longrightarrow>
   manage_video_transitions cfg w k =
     (False, load_succeeded cfg w ((cap_release k)\<lparr>cap := Some True\<rparr>))"
  by (simp add: manage_video_transitions_def cap_opened_def)

lemma transitions_failed:
  "needs_load k \<Longrightarrow> \<not> open_ok w \<Longrightarrow>
   manage_video_transitions cfg w k =
     (True, load_failed cfg ((cap_release k)\<lparr>cap := Some False\<rparr>))"
  by (simp add: manage_video_transitions_def cap_opened_def)

lemma arrivals_fields [simp]:
  "fps (arrivals w k) = fps k"
  "fade_in_frames (arrivals w k) = fade_in_frames k"
  "current_playback_frame_count (arrivals w k) = current_playback_frame_count k"
  "rfid_event_queue (arrivals w k) = rfid_event_queue k @ tags_put w"
  by (simp_all add: arrivals_def)

lemma events_fields [simp]:
  "fps (process_rfid_events cfg k) = fps k"
  "fade_in_frames (process_rfid_events cfg k) = fade_in_frames k"
  "current_playback_frame_count (process_rfid_events cfg k) = current_playback_frame_count k"
  by (simp_all add: process_rfid_events_def Let_def split: list.splits tag_event.splits)


subsection \<open>The queue through an iteration\<close>







subsection \<open>The invariant of the loop\<close>

lemma py_int_nonneg: "0 \<le> x \<Longrightarrow> 0 \<le> py_int x"
  by (simp add: py_int_def)

lemma effective_fps_pos: "0 < old \<Longrightarrow> 0 < effective_fps_for_fade nf old"
  by (simp add: effective_fps_for_fade_def)

lemma safe_initial: "safe cfg (initial cfg a)"
  by (auto simp: safe_def initial_def intro!: py_int_nonneg)

lemma manage_returns:
  "fade \<noteq> 0 \<or> 0 \<le> t \<Longrightarrow> \<exists>a'. manage_soundtrack_volume t fade a = Inr a'"
  by (auto simp: manage_soundtrack_volume_def fade_in_block_def Let_def)

lemma safe_arrivals: "safe cfg (arrivals w k) = safe cfg k"
  by (simp add: safe_def)

lemma safe_events: "safe cfg (process_rfid_events cfg k) = safe cfg k"
  by (simp add: safe_def)

lemma safe_loaded:
  assumes "safe cfg k"
  shows "safe cfg (load_succeeded cfg w ((cap_release k)\<lparr>cap := Some True\<rparr>))"
proof -
  obtain nf nw nh nt where p: "get_video_properties True w = (nf, nw, nh, nt)"
    by (cases "get_video_properties True w") auto
  have fpos: "0 < fps k" using assms by (simp add: safe_def)
  have epos: "0 < effective_fps_for_fade nf (fps k)" using fpos by (rule effective_fps_pos)
  have "FADE_DURATION_SECONDS cfg < 0
        \<or> 0 \<le> py_int (FADE_DURATION_SECONDS cfg * effective_fps_for_fade nf (fps k))"
    using epos by (auto intro!: py_int_nonneg simp: not_less)
  then show ?thesis
    using fpos by (auto simp: safe_def load_succeeded_def cap_opened_def p properties_fps)
qed

lemma safe_failed: "safe cfg k \<Longrightarrow> safe cfg (load_failed cfg ((cap_release k)\<lparr>cap := Some False\<rparr>))"
  by (simp add: safe_def load_failed_def)

lemma safe_transitions:
  "safe cfg k \<Longrightarrow> safe cfg (snd (manage_video_transitions cfg w k))"
  by (cases "needs_load k"; cases "open_ok w")
     (simp_all add: transitions_loaded transitions_failed safe_loaded safe_failed,
      simp_all add: manage_video_transitions_def)

lemma safe_ended: "safe cfg k \<Longrightarrow> safe cfg (video_ended cfg k)"
  by (simp add: safe_def video_ended_def)

lemma advance_returns:
  assumes "safe cfg k"
  shows "\<exists>k1. advance_frame cfg k = Inr k1 \<and> fps k1 = fps k
           \<and> fade_in_frames k1 = fade_in_frames k
           \<and> current_playback_frame_count k1 = current_playback_frame_count k + 1
           \<and> rfid_event_queue k1 = rfid_event_queue k"
proof -
  let ?c = "current_playback_frame_count k + 1"
  have "FADE_DURATION_SECONDS cfg \<noteq> 0 \<or> 0 \<le> (of_int ?c :: rat) / fps k"
  proof (cases "FADE_DURATION_SECONDS cfg = 0")
    case True
    then have "0 \<le> ?c" using assms by (auto simp: safe_def)
    then have "(0::rat) \<le> of_int ?c" by simp
    moreover have "0 < fps k" using assms by (simp add: safe_def)
    ultimately show ?thesis by simp
  qed simp
  then obtain a' where
    "manage_soundtrack_volume (of_int ?c / fps k) (FADE_DURATION_SECONDS cfg) (sound k) = Inr a'"
    using manage_returns by blast
  then show ?thesis by (simp add: advance_frame_def Let_def)
qed

lemma show_returns:
  assumes "0 < fps k"
    and "1 \<le> current_playback_frame_count k \<or> fade_in_frames k < current_playback_frame_count k"
  shows "\<exists>k' alpha. show_frame w frame k = Inr (k', Some alpha) \<and> fps k' = fps k
           \<and> fade_in_frames k' = fade_in_frames k
           \<and> current_playback_frame_count k' = current_playback_frame_count k
           \<and> rfid_event_queue k' = rfid_event_queue k"
  using assms by (auto simp: show_frame_def fade_alpha_def Let_def)

lemma read_and_display_safe:
  assumes "safe cfg k"
  shows "\<exists>k' shown. read_and_display cfg w k = Inr (k', shown) \<and> safe cfg k'
           \<and> (shown \<noteq> None \<and> current_playback_frame_count k' \<le> fade_in_frames k'
                \<longrightarrow> 1 \<le> current_playback_frame_count k' \<and> 1 \<le> fade_in_frames k')"
proof (cases "cap k \<noteq> None \<and> cap_opened k")
  case False
  then show ?thesis using assms by (auto simp: read_and_display_def)
next
  case opened: True
  show ?thesis
  proof (cases "read_frame w")
    case None
    then show ?thesis using opened assms by (simp add: read_and_display_def safe_ended)
  next
    case (Some frame)
    obtain k1 where k1: "advance_frame cfg k = Inr k1" "fps k1 = fps k"
        "fade_in_frames k1 = fade_in_frames k"
        "current_playback_frame_count k1 = current_playback_frame_count k + 1"
      using advance_returns [OF assms] by blast
    have c1: "1 \<le> current_playback_frame_count k1
              \<or> fade_in_frames k1 < current_playback_frame_count k1"
      using assms k1 by (auto simp: safe_def)
    have "0 < fps k1" using assms k1 by (simp add: safe_def)
    then obtain k' alpha where k': "show_frame w frame k1 = Inr (k', Some alpha)"
        "fps k' = fps k1" "fade_in_frames k' = fade_in_frames k1"
        "current_playback_frame_count k' = current_playback_frame_count k1"
      using show_returns [OF _ c1] by blast
    have "safe cfg k'" using assms k1 k' c1 by (auto simp: safe_def)
    moreover have "read_and_display cfg w k = Inr (k', Some alpha)"
      using opened Some k1 k' by (simp add: read_and_display_def)
    ultimately show ?thesis using c1 k' by auto
  qed
qed

lemma iteration_safe:
  assumes "safe cfg k"
  shows "\<exists>k' shown. iteration cfg w k = Inr (k', shown) \<and> safe cfg k'
           \<and> (shown \<noteq> None \<and> current_playback_frame_count k' \<le> fade_in_frames k'
                \<longrightarrow> 1 \<le> current_playback_frame_count k' \<and> 1 \<le> fade_in_frames k')"
proof -
  let ?k0 = "process_rfid_events cfg (arrivals w k)"
  obtain c k1 where m: "manage_video_transitions cfg w ?k0 = (c, k1)"
    by (cases "manage_video_transitions cfg w ?k0") auto
  have s1: "safe cfg k1"
    using safe_transitions [of cfg ?k0 w] assms m by (simp add: safe_events safe_arrivals)
  show ?thesis
  proof (cases c)
    case True
    then show ?thesis using m s1 by (simp add: iteration_def)
  next
    case False
    then show ?thesis using m read_and_display_safe [OF s1, of w] by (simp add: iteration_def)
  qed
qed

lemma reachable_safe: "reachable cfg a0 k \<Longrightarrow> safe cfg k"
proof (induction rule: reachable.induct)
  case start
  show ?case by (rule safe_initial)
next
  case (step k w k' shown)
  then show ?case using iteration_safe [of cfg k w] by auto
qed

lemma run_reachable:
  "reachable cfg a0 k \<Longrightarrow> run_loop cfg ws k = Inr k' \<Longrightarrow> reachable cfg a0 k'"
proof (induction ws arbitrary: k)
  case Nil
  then show ?case by simp
next
  case (Cons w ws)
  show ?case
  proof (cases "running k")
    case False
    then show ?thesis using Cons.prems by simp
  next
    case True
    then obtain k1 shown where it: "iteration cfg w k = Inr (k1, shown)"
      and rest: "run_loop cfg ws k1 = Inr k'"
      using Cons.prems(2) by (auto split: sum.splits)
    have "reachable cfg a0 k1" using Cons.prems(1) True it by (rule reachable.step)
    then show ?thesis using rest by (rule Cons.IH)
  qed
qed

subsection \<open>The volumes written\<close>

lemma target_pos: "0 < TARGET_SOUNDTRACK_VOLUME"
  by (simp add: TARGET_SOUNDTRACK_VOLUME_def)

lemma fade_in_volume_range:
  assumes "0 \<le> t"
  shows "0 \<le> fade_in_volume fade t \<and> fade_in_volume fade t \<le> TARGET_SOUNDTRACK_VOLUME"
proof (cases "t < fade")
  case True
  then have "0 < fade" using assms by simp
  then have q: "0 \<le> t / fade" using assms by simp
  have "0 \<le> (t / fade) * TARGET_SOUNDTRACK_VOLUME"
    by (rule mult_nonneg_nonneg [OF q less_imp_le [OF target_pos]])
  then show ?thesis using True target_pos by (simp add: fade_in_volume_def)
next
  case False
  then show ?thesis using target_pos by (simp add: fade_in_volume_def)
qed

lemma fade_out_volume_range:
  "0 \<le> fade_out_volume fade dur t \<and> fade_out_volume fade dur t \<le> TARGET_SOUNDTRACK_VOLUME"
proof -
  let ?x = "t - (dur - fade)"
  have "0 \<le> ?x \<Longrightarrow> ?x < fade \<Longrightarrow>
        TARGET_SOUNDTRACK_VOLUME * (1 - ?x / fade) \<le> TARGET_SOUNDTRACK_VOLUME"
  proof -
    assume a: "0 \<le> ?x" "?x < fade"
    then have "0 < fade" by simp
    then have "0 \<le> ?x / fade" using a by simp
    then have "1 - ?x / fade \<le> 1" by simp
    then have "TARGET_SOUNDTRACK_VOLUME * (1 - ?x / fade) \<le> TARGET_SOUNDTRACK_VOLUME * 1"
      using target_pos by (intro mult_left_mono) simp_all
    then show ?thesis by simp
  qed
  then show ?thesis using target_pos by (auto simp: fade_out_volume_def not_less)
qed

lemma fade_in_volume_mono:
  assumes "0 \<le> t" and "t \<le> t'"
  shows "fade_in_volume fade t \<le> fade_in_volume fade t'"
proof (cases "t' < fade")
  case True
  then have pos: "0 < fade" and lt: "t < fade" using assms by simp_all
  have "t / fade \<le> t' / fade" using assms pos by (simp add: divide_right_mono)
  then have "(t / fade) * TARGET_SOUNDTRACK_VOLUME \<le> (t' / fade) * TARGET_SOUNDTRACK_VOLUME"
    using target_pos by (intro mult_right_mono) simp_all
  then show ?thesis using True lt by (simp add: fade_in_volume_def min_def)
next
  case False
  then have "fade_in_volume fade t' = TARGET_SOUNDTRACK_VOLUME"
    by (simp add: fade_in_volume_def)
  then show ?thesis using fade_in_volume_range [OF assms(1)] by simp
qed

lemma fade_out_volume_anti:
  assumes "t \<le> t'"
  shows "fade_out_volume fade dur t' \<le> fade_out_volume fade dur t"
proof -
  let ?x = "t - (dur - fade)" and ?x' = "t' - (dur - fade)"
  have xx: "?x \<le> ?x'" using assms by simp
  show ?thesis
  proof (cases "?x < 0")
    case True
    then have "fade_out_volume fade dur t = TARGET_SOUNDTRACK_VOLUME"
      by (simp add: fade_out_volume_def)
    then show ?thesis using fade_out_volume_range [of fade dur t'] by simp
  next
    case x0: False
    show ?thesis
    proof (cases "?x' < fade")
      case True
      then have pos: "0 < fade" and lt: "?x < fade" using x0 xx by simp_all
      have "?x / fade \<le> ?x' / fade" using xx pos by (simp add: divide_right_mono)
      then have "1 - ?x' / fade \<le> 1 - ?x / fade" by simp
      then have "TARGET_SOUNDTRACK_VOLUME * (1 - ?x' / fade)
                 \<le> TARGET_SOUNDTRACK_VOLUME * (1 - ?x / fade)"
        using target_pos by (intro mult_left_mono) simp_all
      moreover have "\<not> ?x' < 0" using x0 xx by simp
      ultimately show ?thesis using True lt x0 by (simp add: fade_out_volume_def max_def)
    next
      case False
      then have "\<not> ?x' < 0 \<Longrightarrow> fade_out_volume fade dur t' = 0"
        by (simp add: fade_out_volume_def)
      moreover have "\<not> ?x' < 0" using x0 xx by simp
      ultimately show ?thesis using fade_out_volume_range [of fade dur t] by simp
    qed
  qed
qed

lemma set_volume_fields [simp]:
  "audio_fade_state (set_volume v a) = audio_fade_state a"
  "current_video_duration_sec (set_volume v a) = current_video_duration_sec a"
  "has_channel (set_volume v a) = has_channel a"
  by (simp_all add: set_volume_def has_channel_def split: option.splits)

lemma set_volume_writes:
  "has_channel a \<Longrightarrow> writes (set_volume v a) = writes a @ [(audio_fade_state a, v)]"
  by (auto simp: set_volume_def writes_def has_channel_def split: option.splits)

lemma state_update_writes [simp]:
  "writes (a\<lparr>audio_fade_state := s\<rparr>) = writes a"
  "has_channel (a\<lparr>audio_fade_state := s\<rparr>) = has_channel a"
  by (simp_all add: writes_def has_channel_def)

lemma sound_ended_fields [simp]:
  "writes (sound_ended fin a) = writes a"
  "current_video_duration_sec (sound_ended fin a) = current_video_duration_sec a"
  by (simp_all add: sound_ended_def channel_stop_def writes_def split: option.splits)

lemma fade_in_block_writes:
  assumes "has_channel a" and "0 \<le> t"
  shows "\<exists>a1. fade_in_block t fade a = Inr a1 \<and> has_channel a1
           \<and> current_video_duration_sec a1 = current_video_duration_sec a
           \<and> writes a1 = writes a @
               (if audio_fade_state a = FADE_IN then [(FADE_IN, fade_in_volume fade t)] else [])"
proof -
  have "t < fade \<Longrightarrow> fade \<noteq> 0" using assms(2) by auto
  then show ?thesis
    using assms(1)
    by (simp add: fade_in_block_def fade_in_volume_def set_volume_writes Let_def)
qed

lemma fade_out_start_fields [simp]:
  "writes (fade_out_start t fade a) = writes a"
  "current_video_duration_sec (fade_out_start t fade a) = current_video_duration_sec a"
  "has_channel (fade_out_start t fade a) = has_channel a"
  by (simp_all add: fade_out_start_def Let_def)

lemma fade_out_block_writes:
  assumes "has_channel a"
  shows "current_video_duration_sec (fade_out_block t fade a) = current_video_duration_sec a
       \<and> (writes (fade_out_block t fade a) = writes a
          \<or> writes (fade_out_block t fade a) =
              writes a @ [(FADE_OUT, fade_out_volume fade (current_video_duration_sec a) t)])"
  using assms
  by (simp add: fade_out_block_def fade_out_volume_def set_volume_writes Let_def)

lemma manage_writes:
  assumes "0 \<le> t"
  shows "\<exists>a' n1 n2. manage_soundtrack_volume t fade a = Inr a'
           \<and> current_video_duration_sec a' = current_video_duration_sec a
           \<and> writes a' = writes a @ n1 @ n2
           \<and> (n1 = [] \<or> n1 = [(FADE_IN, fade_in_volume fade t)])
           \<and> (n2 = [] \<or> n2 = [(FADE_OUT,
                                 fade_out_volume fade (current_video_duration_sec a) t)])"
proof (cases "pygame_mixer_initialized a \<and> soundtrack_channel a \<noteq> None \<and> get_busy a")
  case False
  then have "manage_soundtrack_volume t fade a = Inr (a\<lparr>audio_fade_state := NONE\<rparr>)"
    by (simp add: manage_soundtrack_volume_def)
  then show ?thesis by simp
next
  case True
  then have ch: "has_channel a" by (simp add: has_channel_def)
  obtain a1 where a1: "fade_in_block t fade a = Inr a1" "has_channel a1"
      "current_video_duration_sec a1 = current_video_duration_sec a"
      "writes a1 = writes a @
         (if audio_fade_state a = FADE_IN then [(FADE_IN, fade_in_volume fade t)] else [])"
    using fade_in_block_writes [OF ch assms] by blast
  let ?a2 = "fade_out_start t fade a1"
  let ?a3 = "fade_out_block t fade ?a2"
  have m: "manage_soundtrack_volume t fade a = Inr ?a3"
    using True a1(1) by (simp add: manage_soundtrack_volume_def)
  have ch2: "has_channel ?a2" using a1(2) by simp
  have d: "current_video_duration_sec ?a3 = current_video_duration_sec a"
    using fade_out_block_writes [OF ch2] a1(3) by simp
  have w: "writes ?a3 = writes ?a2
          \<or> writes ?a3 = writes ?a2 @ [(FADE_OUT,
               fade_out_volume fade (current_video_duration_sec a) t)]"
    using fade_out_block_writes [OF ch2, of t fade] a1(3) by simp
  let ?n1 = "if audio_fade_state a = FADE_IN then [(FADE_IN, fade_in_volume fade t)] else []"
  have w2: "writes ?a2 = writes a @ ?n1" using a1(4) by simp
  obtain n2 where n2: "writes ?a3 = writes ?a2 @ n2"
      "n2 = [] \<or> n2 = [(FADE_OUT, fade_out_volume fade (current_video_duration_sec a) t)]"
    using w by auto
  have "writes ?a3 = writes a @ ?n1 @ n2" using w2 n2(1) by simp
  moreover have "?n1 = [] \<or> ?n1 = [(FADE_IN, fade_in_volume fade t)]" by simp
  ultimately show ?thesis using m d n2(2) by blast
qed

lemma in_writes_append [simp]:
  "fade_in_writes (xs @ ys) = fade_in_writes xs @ fade_in_writes ys"
  "fade_out_writes (xs @ ys) = fade_out_writes xs @ fade_out_writes ys"
  by (simp_all add: fade_in_writes_def fade_out_writes_def)

lemma in_writes_simps [simp]:
  "fade_in_writes [] = []" "fade_out_writes [] = []"
  "fade_in_writes [(FADE_IN, v)] = [v]" "fade_out_writes [(FADE_IN, v)] = []"
  "fade_in_writes [(FADE_OUT, v)] = []" "fade_out_writes [(FADE_OUT, v)] = [v]"
  by (simp_all add: fade_in_writes_def fade_out_writes_def)

lemma manage_calls_writes:
  assumes "sorted (map snd cs)" and "list_all (\<lambda>c. 0 \<le> snd c) cs"
  shows "\<exists>a' new. manage_calls fade cs a = Inr a' \<and> writes a' = writes a @ new
           \<and> current_video_duration_sec a' = current_video_duration_sec a
           \<and> fst ` set new \<subseteq> {FADE_IN, FADE_OUT}
           \<and> set (fade_in_writes new) \<subseteq> fade_in_volume fade ` snd ` set cs
           \<and> set (fade_out_writes new)
                \<subseteq> fade_out_volume fade (current_video_duration_sec a) ` snd ` set cs
           \<and> sorted (fade_in_writes new) \<and> sorted (rev (fade_out_writes new))"
  using assms
proof (induction cs arbitrary: a)
  case Nil
  show ?case by simp
next
  case (Cons c cs)
  obtain fin t where c: "c = (fin, t)" by (cases c)
  have t0: "0 \<le> t" and later: "\<forall>t' \<in> snd ` set cs. t \<le> t'"
    and s: "sorted (map snd cs)" and p: "list_all (\<lambda>c. 0 \<le> snd c) cs"
    using Cons.prems c by auto
  let ?d = "current_video_duration_sec a"
  let ?a0 = "sound_ended fin a"
  obtain a1 n1 n2 where a1: "manage_soundtrack_volume t fade ?a0 = Inr a1"
      "current_video_duration_sec a1 = ?d" "writes a1 = writes a @ n1 @ n2"
      "n1 = [] \<or> n1 = [(FADE_IN, fade_in_volume fade t)]"
      "n2 = [] \<or> n2 = [(FADE_OUT, fade_out_volume fade ?d t)]"
    using manage_writes [OF t0, of fade ?a0] by auto
  obtain a' new where a': "manage_calls fade cs a1 = Inr a'" "writes a' = writes a1 @ new"
      "current_video_duration_sec a' = ?d"
      "fst ` set new \<subseteq> {FADE_IN, FADE_OUT}"
      "set (fade_in_writes new) \<subseteq> fade_in_volume fade ` snd ` set cs"
      "set (fade_out_writes new) \<subseteq> fade_out_volume fade ?d ` snd ` set cs"
      "sorted (fade_in_writes new)" "sorted (rev (fade_out_writes new))"
    using Cons.IH [OF s p, of a1] a1(2) by auto
  let ?new = "n1 @ n2 @ new"
  have r: "manage_calls fade (c # cs) a = Inr a'" using c a1(1) a'(1) by simp
  have w: "writes a' = writes a @ ?new" using a1(3) a'(2) by simp
  have tags: "fst ` set ?new \<subseteq> {FADE_IN, FADE_OUT}" using a1(4,5) a'(4) by auto
  have ins: "fade_in_writes ?new = fade_in_writes n1 @ fade_in_writes new"
    using a1(5) by auto
  have outs: "fade_out_writes ?new = fade_out_writes n2 @ fade_out_writes new"
    using a1(4) by auto
  have in_sub: "set (fade_in_writes ?new) \<subseteq> fade_in_volume fade ` snd ` set (c # cs)"
    using ins a1(4) a'(5) c by auto
  have out_sub: "set (fade_out_writes ?new) \<subseteq> fade_out_volume fade ?d ` snd ` set (c # cs)"
    using outs a1(5) a'(6) c by auto
  have in_le: "\<forall>v \<in> set (fade_in_writes new). fade_in_volume fade t \<le> v"
  proof
    fix v assume "v \<in> set (fade_in_writes new)"
    then obtain t' where "t' \<in> snd ` set cs" "v = fade_in_volume fade t'" using a'(5) by blast
    then show "fade_in_volume fade t \<le> v" using later fade_in_volume_mono [OF t0] by blast
  qed
  have out_ge: "\<forall>v \<in> set (fade_out_writes new). v \<le> fade_out_volume fade ?d t"
  proof
    fix v assume "v \<in> set (fade_out_writes new)"
    then obtain t' where "t' \<in> snd ` set cs" "v = fade_out_volume fade ?d t'"
      using a'(6) by blast
    then show "v \<le> fade_out_volume fade ?d t" using later fade_out_volume_anti by blast
  qed
  have in_sorted: "sorted (fade_in_writes ?new)"
    using ins a1(4) a'(7) in_le by (auto simp: sorted_append)
  have out_sorted: "sorted (rev (fade_out_writes ?new))"
    using outs a1(5) a'(8) out_ge by (auto simp: sorted_append)
  show ?case
    using r w a'(3) tags in_sub out_sub in_sorted out_sorted by blast
qed

lemma elapsed_time_positive:
  assumes "safe cfg k" and "0 \<le> FADE_DURATION_SECONDS cfg"
  shows "0 < (of_int (current_playback_frame_count k + 1) :: rat) / fps k"
proof -
  have "0 \<le> current_playback_frame_count k" and "0 < fps k"
    using assms by (auto simp: safe_def)
  then have "(0::rat) < of_int (current_playback_frame_count k + 1)" by simp
  then show ?thesis using \<open>0 < fps k\<close> by simp
qed

section \<open>The claims\<close>

text \<open>
  C1. An iteration that dequeues \<open>TAG_INSERTED t\<close>: if \<open>t\<close> is the active tag, nothing but
  the queue changes (no reload, no fade restart); otherwise, if \<open>t\<close> is a key of the
  validated map, the target becomes the path mapped to \<open>t\<close> and \<open>target_is_idle\<close> becomes
  False; otherwise the state, and so the target, \<open>target_is_idle\<close> and the active tag,
  is unchanged.
\<close>

theorem tag_inserted_event:
  assumes "rfid_active cfg" and "rfid_event_queue k = TAG_INSERTED t # rest"
  shows "(active_tag_id k = Some t \<longrightarrow>
            process_rfid_events cfg k = k\<lparr>rfid_event_queue := rest\<rparr>)
       \<and> (active_tag_id k \<noteq> Some t \<longrightarrow>
            (\<forall>p. map_of (valid_tag_video_map cfg) t = Some p \<longrightarrow>
               process_rfid_events cfg k =
                 k\<lparr>rfid_event_queue := rest, target_video_path := p, target_is_idle := False\<rparr>))
       \<and> (active_tag_id k \<noteq> Some t \<and> t \<notin> fst ` set (valid_tag_video_map cfg) \<longrightarrow>
            process_rfid_events cfg k = k\<lparr>rfid_event_queue := rest\<rparr>)"
  using assms
  by (auto simp: process_rfid_events_def dict_in_def dict_get_def map_of_eq_None_iff)

theorem tag_inserted_event_witness:
  "process_rfid_events example_config
     ((initial example_config example_audio)\<lparr>rfid_event_queue := [TAG_INSERTED 418]\<rparr>)
   = (initial example_config example_audio)
       \<lparr>rfid_event_queue := [], target_video_path := ''media/a.mp4'', target_is_idle := False\<rparr>"
  using tag_inserted_event [of example_config
      "(initial example_config example_audio)\<lparr>rfid_event_queue := [TAG_INSERTED 418]\<rparr>" 418 "[]"]
  by (simp add: example_config_def initial_def)

text \<open>
  C2. When the frame read returns no frame (end of stream and read error are one branch),
  the target reverts to the idle video, \<open>target_is_idle\<close> becomes True, the active tag
  becomes None, the soundtrack is stopped at once (state NONE, channel no longer busy),
  and \<open>previous_video_was_content\<close> is True exactly when an active tag was set.
\<close>

theorem no_frame_reverts_to_idle:
  assumes "cap_opened k" and "read_frame w = None"
  shows "\<exists>k'. read_and_display cfg w k = Inr (k', None)
           \<and> target_video_path k' = idle_video_full_path cfg
           \<and> target_is_idle k'
           \<and> active_tag_id k' = None
           \<and> sound k' = stop_soundtrack_immediately (sound k)
           \<and> audio_fade_state (sound k') = NONE
           \<and> (pygame_mixer_initialized (sound k) \<longrightarrow> \<not> get_busy (sound k'))
           \<and> previous_video_was_content k' = (active_tag_id k \<noteq> None)"
  using assms
  by (simp add: read_and_display_def video_ended_def cap_opened_def stop_not_busy)

theorem no_frame_witness:
  "cap_opened (example_after [tag_world [418]]) \<and> read_frame end_world = None
   \<and> (\<exists>k'. read_and_display example_config end_world (example_after [tag_world [418]]) = Inr (k', None)
          \<and> target_video_path k' = ''media/idle.mp4'' \<and> target_is_idle k'
          \<and> active_tag_id k' = None \<and> audio_fade_state (sound k') = NONE
          \<and> \<not> get_busy (sound k') \<and> previous_video_was_content k')"
proof -
  let ?k = "example_after [tag_world [418]]"
  have h1: "cap_opened ?k" by code_simp
  have h2: "read_frame end_world = None" by code_simp
  have h3: "active_tag_id ?k = Some 418" by code_simp
  have h4: "pygame_mixer_initialized (sound ?k)" by code_simp
  have h5: "idle_video_full_path example_config = ''media/idle.mp4''" by code_simp
  show ?thesis
    using h1 h2 h3 h4 h5 no_frame_reverts_to_idle [OF h1 h2, of example_config] by auto
qed

text \<open>
  C3. A successful load of a content video resets the frame counter to 0 and sets
  \<open>previous_video_was_content\<close>; a successful load of the idle video resets the counter
  to 0 exactly when \<open>previous_video_was_content\<close> was True, presets it to
  \<open>fade_in_frames + 1\<close> otherwise, and clears the flag.
\<close>

theorem load_fade_policy:
  assumes "needs_load k" and "open_ok w"
  shows "\<exists>k'. manage_video_transitions cfg w k = (False, k')
           \<and> (target_video_path k \<noteq> idle_video_full_path cfg \<longrightarrow>
                current_playback_frame_count k' = 0 \<and> previous_video_was_content k')
           \<and> (target_video_path k = idle_video_full_path cfg \<longrightarrow>
                current_playback_frame_count k' =
                  (if previous_video_was_content k then 0 else fade_in_frames k' + 1)
                \<and> \<not> previous_video_was_content k')"
proof -
  let ?k' = "load_succeeded cfg w ((cap_release k)\<lparr>cap := Some True\<rparr>)"
  obtain nf nw nh nt where p: "get_video_properties True w = (nf, nw, nh, nt)"
    by (cases "get_video_properties True w") auto
  have "manage_video_transitions cfg w k = (False, ?k')"
    using assms by (rule transitions_loaded)
  moreover have "target_video_path k \<noteq> idle_video_full_path cfg \<longrightarrow>
      current_playback_frame_count ?k' = 0 \<and> previous_video_was_content ?k'"
    by (simp add: load_succeeded_def cap_opened_def p properties_flag)
  moreover have "target_video_path k = idle_video_full_path cfg \<longrightarrow>
      current_playback_frame_count ?k' =
        (if previous_video_was_content k then 0 else fade_in_frames ?k' + 1)
      \<and> \<not> previous_video_was_content ?k'"
    by (simp add: load_succeeded_def cap_opened_def p properties_flag)
  ultimately show ?thesis by blast
qed

theorem load_fade_policy_witness:
  "needs_load (example_after [tag_world [418], end_world]) \<and> open_ok example_world
   \<and> (\<exists>k'. manage_video_transitions example_config example_world
             (example_after [tag_world [418], end_world]) = (False, k')
          \<and> current_playback_frame_count k' = 0 \<and> \<not> previous_video_was_content k')"
proof -
  let ?k = "example_after [tag_world [418], end_world]"
  have h1: "needs_load ?k" by code_simp
  have h2: "open_ok example_world" by code_simp
  have h3: "target_video_path ?k = idle_video_full_path example_config" by code_simp
  have h4: "previous_video_was_content ?k" by code_simp
  show ?thesis
    using h1 h2 h3 h4 load_fade_policy [OF h1 h2, of example_config] by auto
qed

text \<open>
  C4, as the code has it. When the capture fails to open, the fallback to idle is
  forced, and \<open>previous_video_was_content\<close> is set True when the video that had been
  playing was a content video (its path neither the idle path nor empty), whatever the
  failed target was; it is set False when the failed target was the idle video and
  nothing or the idle video had been playing.
\<close>

theorem failed_load_flag:
  assumes "needs_load k" and "\<not> open_ok w"
  shows "\<exists>k'. manage_video_transitions cfg w k = (True, k')
           \<and> target_video_path k' = idle_video_full_path cfg
           \<and> target_is_idle k' \<and> active_tag_id k' = None
           \<and> (current_video_path_playing k \<noteq> idle_video_full_path cfg
                \<and> current_video_path_playing k \<noteq> [] \<longrightarrow> previous_video_was_content k')
           \<and> (target_video_path k = idle_video_full_path cfg
                \<and> (current_video_path_playing k = idle_video_full_path cfg
                    \<or> current_video_path_playing k = []) \<longrightarrow> \<not> previous_video_was_content k')"
  using assms
  by (auto simp: transitions_failed load_failed_def)

text \<open>
  The claim as stated (the flag is True if and only if the failed target was not the
  idle video) fails after a content video has ended: the failed target is the idle
  video, and the flag is set True.
\<close>

theorem failed_load_flag_counterexample:
  "needs_load (example_after [tag_world [418], end_world]) \<and> \<not> open_ok broken_world
   \<and> target_video_path (example_after [tag_world [418], end_world])
       = idle_video_full_path example_config
   \<and> fst (manage_video_transitions example_config broken_world
            (example_after [tag_world [418], end_world]))
   \<and> previous_video_was_content
        (snd (manage_video_transitions example_config broken_world
               (example_after [tag_world [418], end_world])))
   \<and> previous_video_was_content
        (snd (manage_video_transitions example_config broken_world
               (example_after [tag_world [418], end_world])))
       \<noteq> (target_video_path (example_after [tag_world [418], end_world])
            \<noteq> idle_video_full_path example_config)"
  by code_simp

theorem failed_load_flag_witness:
  "needs_load (example_after [tag_world [418], end_world]) \<and> \<not> open_ok broken_world
   \<and> (\<exists>k'. manage_video_transitions example_config broken_world
             (example_after [tag_world [418], end_world]) = (True, k')
          \<and> target_video_path k' = ''media/idle.mp4'' \<and> target_is_idle k'
          \<and> previous_video_was_content k')"
proof -
  let ?k = "example_after [tag_world [418], end_world]"
  have h1: "needs_load ?k" by code_simp
  have h2: "\<not> open_ok broken_world" by code_simp
  have h3: "current_video_path_playing ?k \<noteq> idle_video_full_path example_config
            \<and> current_video_path_playing ?k \<noteq> []" by code_simp
  have h5: "idle_video_full_path example_config = ''media/idle.mp4''" by code_simp
  show ?thesis
    using h1 h2 h3 h5 failed_load_flag [OF h1 h2, of example_config] by auto
qed







text \<open>
  C7. For a fade budget of at least 1, the blend factor is 0 at frame count 0, is 1 at
  every frame count from the budget on, and is non-decreasing in the frame count.
\<close>

theorem fade_alpha_profile:
  assumes "1 \<le> f"
  shows "fade_alpha 0 f = Inr 0
       \<and> (\<forall>c. f \<le> c \<longrightarrow> fade_alpha c f = Inr 1)
       \<and> (\<forall>c c'. c \<le> c' \<longrightarrow>
            (\<exists>a a'. fade_alpha c f = Inr a \<and> fade_alpha c' f = Inr a' \<and> a \<le> a'))"
proof (intro conjI allI impI)
  show "fade_alpha 0 f = Inr 0" using assms by (simp add: fade_alpha_def)
next
  fix c assume "f \<le> c"
  then show "fade_alpha c f = Inr 1" using assms by (auto simp: fade_alpha_def)
next
  fix c c' :: int assume le: "c \<le> c'"
  have pos: "(0::rat) < of_int f" using assms by simp
  have "(of_int c :: rat) / of_int f \<le> of_int c' / of_int f"
    using le pos by (simp add: divide_right_mono)
  moreover have "c \<le> f \<Longrightarrow> (of_int c :: rat) / of_int f \<le> 1"
    using pos by simp
  ultimately show "\<exists>a a'. fade_alpha c f = Inr a \<and> fade_alpha c' f = Inr a' \<and> a \<le> a'"
    using assms le by (auto simp: fade_alpha_def min_def)
qed

theorem fade_alpha_profile_witness:
  "(1::int) \<le> 37 \<and> fade_alpha 0 37 = Inr 0 \<and> fade_alpha 37 37 = Inr 1
   \<and> fade_alpha 40 37 = Inr 1"
  using fade_alpha_profile [of 37] by simp

text \<open>
  C8. Over a run of update calls at video times that do not decrease (elapsed times, so
  non-negative: the loop passes the frame count over the frame rate), with the fade
  duration and the video duration fixed, every call returns, every volume written lies
  between 0 and the target volume, the volumes written in FADE_IN do not decrease and
  the volumes written in FADE_OUT do not increase.
\<close>

theorem volume_range_and_monotone:
  assumes "sorted (map snd cs)" and "list_all (\<lambda>c. 0 \<le> snd c) cs"
  shows "\<exists>a' new. manage_calls fade cs a = Inr a' \<and> writes a' = writes a @ new
           \<and> (\<forall>w \<in> set new. 0 \<le> snd w \<and> snd w \<le> TARGET_SOUNDTRACK_VOLUME)
           \<and> sorted (fade_in_writes new) \<and> sorted (rev (fade_out_writes new))"
proof -
  let ?d = "current_video_duration_sec a"
  obtain a' new where a': "manage_calls fade cs a = Inr a'" "writes a' = writes a @ new"
      "fst ` set new \<subseteq> {FADE_IN, FADE_OUT}"
      "set (fade_in_writes new) \<subseteq> fade_in_volume fade ` snd ` set cs"
      "set (fade_out_writes new) \<subseteq> fade_out_volume fade ?d ` snd ` set cs"
      "sorted (fade_in_writes new)" "sorted (rev (fade_out_writes new))"
    using manage_calls_writes [OF assms, of fade a] by blast
  have nonneg: "\<forall>t \<in> snd ` set cs. 0 \<le> t" using assms(2) by (auto simp: list_all_iff)
  have "\<forall>w \<in> set new. 0 \<le> snd w \<and> snd w \<le> TARGET_SOUNDTRACK_VOLUME"
  proof
    fix w assume w: "w \<in> set new"
    then have "fst w = FADE_IN \<or> fst w = FADE_OUT" using a'(3) by auto
    then show "0 \<le> snd w \<and> snd w \<le> TARGET_SOUNDTRACK_VOLUME"
    proof
      assume "fst w = FADE_IN"
      then have "snd w \<in> set (fade_in_writes new)"
        using w by (auto simp: fade_in_writes_def)
      then obtain t where "t \<in> snd ` set cs" "snd w = fade_in_volume fade t"
        using a'(4) by blast
      then show ?thesis using nonneg fade_in_volume_range [of t fade] by metis
    next
      assume "fst w = FADE_OUT"
      then have "snd w \<in> set (fade_out_writes new)"
        using w by (auto simp: fade_out_writes_def)
      then obtain t where "snd w = fade_out_volume fade ?d t" using a'(5) by blast
      then show ?thesis using fade_out_volume_range [of fade ?d t] by simp
    qed
  qed
  then show ?thesis using a'(1,2,6,7) by blast
qed

theorem volume_range_and_monotone_witness:
  "sorted (map snd example_calls) \<and> list_all (\<lambda>c. 0 \<le> snd c) example_calls
   \<and> (\<exists>a' new. manage_calls (3 / 2) example_calls (sound (example_after [tag_world [418]]))
                  = Inr a'
          \<and> writes a' = writes (sound (example_after [tag_world [418]])) @ new
          \<and> new = [(FADE_IN, 7 / 30), (FADE_IN, 7 / 15), (FADE_IN, 7 / 10), (FADE_OUT, 7 / 10),
                   (FADE_OUT, 7 / 15), (FADE_OUT, 7 / 30), (FADE_OUT, 0)]
          \<and> sorted (fade_in_writes new) \<and> sorted (rev (fade_out_writes new)))"
proof -
  let ?a = "sound (example_after [tag_world [418]])"
  have h1: "sorted (map snd example_calls)" by code_simp
  have h2: "list_all (\<lambda>c. 0 \<le> snd c) example_calls" by code_simp
  have h3: "(case manage_calls (3 / 2) example_calls ?a of Inl e \<Rightarrow> [] | Inr a' \<Rightarrow> writes a')
            = writes ?a @ [(FADE_IN, 7 / 30), (FADE_IN, 7 / 15), (FADE_IN, 7 / 10),
                (FADE_OUT, 7 / 10), (FADE_OUT, 7 / 15), (FADE_OUT, 7 / 30), (FADE_OUT, 0)]"
    by code_simp
  obtain a' new where a': "manage_calls (3 / 2) example_calls ?a = Inr a'"
      "writes a' = writes ?a @ new"
      "sorted (fade_in_writes new)" "sorted (rev (fade_out_writes new))"
    using volume_range_and_monotone [OF h1 h2, of "3 / 2" ?a] by blast
  have "new = [(FADE_IN, 7 / 30), (FADE_IN, 7 / 15), (FADE_IN, 7 / 10),
                (FADE_OUT, 7 / 10), (FADE_OUT, 7 / 15), (FADE_OUT, 7 / 30), (FADE_OUT, 0)]"
    using h3 a'(1,2) by simp
  then show ?thesis using h1 h2 a' by blast
qed

text \<open>
  C9. When the mixer is not initialised, or there is no channel, or the channel is not
  busy, the update call sets the state to NONE and writes no volume, whatever the state
  was.
\<close>

theorem silent_channel_forces_none:
  assumes "\<not> (pygame_mixer_initialized a \<and> soundtrack_channel a \<noteq> None \<and> get_busy a)"
  shows "\<exists>a'. manage_soundtrack_volume t fade a = Inr a'
           \<and> audio_fade_state a' = NONE
           \<and> writes a' = writes a \<and> get_volume a' = get_volume a"
  using assms
  by (auto simp: manage_soundtrack_volume_def writes_def get_volume_def)

theorem silent_channel_witness:
  "\<not> get_busy silent_fade_in \<and> audio_fade_state silent_fade_in = FADE_IN
   \<and> (\<exists>a'. manage_soundtrack_volume 1 (3 / 2) silent_fade_in = Inr a'
          \<and> audio_fade_state a' = NONE \<and> writes a' = [])"
proof -
  have h1: "\<not> (pygame_mixer_initialized silent_fade_in
               \<and> soundtrack_channel silent_fade_in \<noteq> None \<and> get_busy silent_fade_in)"
    by code_simp
  have h2: "\<not> get_busy silent_fade_in" by code_simp
  have h3: "audio_fade_state silent_fade_in = FADE_IN" by code_simp
  have h4: "writes silent_fade_in = []" by code_simp
  show ?thesis using h2 h3 h4 silent_channel_forces_none [OF h1, of 1 "3 / 2"] by auto
qed

text \<open>
  C10. From every state the loop can reach, an iteration raises no ZeroDivisionError;
  and when it has shown a frame through the blend branch (the counter within the
  budget), the counter and the budget are both at least 1 there.
\<close>

theorem blend_division_safe:
  assumes "reachable cfg a0 k"
  shows "\<exists>k' shown. iteration cfg w k = Inr (k', shown)
           \<and> (shown \<noteq> None \<and> current_playback_frame_count k' \<le> fade_in_frames k'
                \<longrightarrow> 1 \<le> current_playback_frame_count k' \<and> 1 \<le> fade_in_frames k')"
  using iteration_safe [OF reachable_safe [OF assms], of w] by blast

theorem blend_division_safe_witness:
  "\<exists>k' shown. iteration example_config (tag_world [418]) (initial example_config example_audio)
       = Inr (k', shown)
     \<and> shown = Some (1 / 37) \<and> current_playback_frame_count k' = 1 \<and> fade_in_frames k' = 37"
proof -
  have r: "reachable example_config example_audio (initial example_config example_audio)"
    by (rule reachable.start)
  have h: "iteration example_config (tag_world [418]) (initial example_config example_audio)
       = Inr (example_after [tag_world [418]], Some (1 / 37))" by code_simp
  have c: "current_playback_frame_count (example_after [tag_world [418]]) = 1
           \<and> fade_in_frames (example_after [tag_world [418]]) = 37" by code_simp
  show ?thesis using h c blend_division_safe [OF r, of "tag_world [418]"] by simp
qed

end
